theory Spec2Isabelle
  imports Main "HOL-Library.AList"
begin

section \<open>Domain model\<close>

text \<open>
  Go strings and byte slices are both sequences of bytes; an Isabelle \<open>char\<close> is a byte,
  so both are modelled as \<open>string\<close>. A nil pointer is \<open>None\<close>. An \<open>error\<close> return is a
  value of the datatype below: \<open>Err\<close> is \<open>errors.New\<close>, \<open>Errf m e\<close> is
  \<open>fmt.Errorf(m + ": %w", e)\<close>, the remaining constructors are the formatted messages
  and the two errors a context can report.
\<close>

type_synonym AccountID = string
type_synonym Email = string
type_synonym Time = nat

datatype error =
    Err string
  | Errf string error
  | ErrAccountExists string
  | ErrInvalidIndex int
  | ErrIndexOutOfRange int nat
  | ErrRetrieveCredentials string error
  | Canceled
  | DeadlineExceeded

subsection \<open>Switch history (history.go)\<close>

record SwitchEntry =
  from_email :: Email
  to_email :: Email
  timestamp :: Time

record History =
  entries :: "SwitchEntry list"
  maxEntries :: int

definition NewSwitchEntry :: "Email \<Rightarrow> Email \<Rightarrow> Time \<Rightarrow> error + SwitchEntry" where
  "NewSwitchEntry from to now =
     (if from = [] then Inl (Err ''from email cannot be empty'')
      else if to = [] then Inl (Err ''to email cannot be empty'')
      else if from = to then Inl (Err ''cannot switch to the same account'')
      else Inr \<lparr>from_email = from, to_email = to, timestamp = now\<rparr>)"

definition NewHistory :: "int \<Rightarrow> History" where
  "NewHistory m = \<lparr>entries = [], maxEntries = (if m \<le> 0 then 10 else m)\<rparr>"

definition MaxEntries :: "History \<Rightarrow> int" where
  "MaxEntries h = maxEntries h"

text \<open>
  \<open>AddEntry\<close> takes a pointer: \<open>None\<close> is the nil entry. The slice expression
  \<open>h.entries[:h.maxEntries]\<close> keeps the first \<open>maxEntries\<close> elements; it is only reached
  when the length exceeds \<open>maxEntries\<close>, and \<open>maxEntries\<close> is positive in every ledger
  that \<open>NewHistory\<close> builds (the fields are private to the package).
\<close>

definition AddEntry :: "History \<Rightarrow> SwitchEntry option \<Rightarrow> History" where
  "AddEntry h entry =
     (case entry of
        None \<Rightarrow> h
      | Some e \<Rightarrow>
          (let es = e # entries h
           in if int (length es) > maxEntries h
              then h\<lparr>entries := take (nat (maxEntries h)) es\<rparr>
              else h\<lparr>entries := es\<rparr>))"

definition Entries :: "History \<Rightarrow> SwitchEntry list" where
  "Entries h = entries h"

definition Clear :: "History \<Rightarrow> History" where
  "Clear h = h\<lparr>entries := []\<rparr>"

definition GetLastSwitch :: "History \<Rightarrow> SwitchEntry option" where
  "GetLastSwitch h = (case entries h of [] \<Rightarrow> None | e # _ \<Rightarrow> Some e)"

subsection \<open>Accounts (account.go)\<close>

record Account =
  acc_id :: AccountID
  email :: Email
  acc_alias :: string
  uuid :: string
  createdAt :: Time
  lastUsed :: Time

text \<open>
  What the process reads from its surroundings is an input of the model: the clock
  (\<open>time.Now()\<close>, and its rendering by \<open>Format("20060102")\<close>), and the bytes that
  \<open>crypto/rand\<close> will deliver to the identifier generator and to the nonce generator.
  A read of \<open>n\<close> random bytes fails when the source cannot deliver \<open>n\<close> bytes.
\<close>

record Env =
  now :: Time
  today :: string
  idEntropy :: string
  nonceEntropy :: string

definition rand_Read :: "nat \<Rightarrow> string \<Rightarrow> string option" where
  "rand_Read n src = (if length src < n then None else Some (take n src))"

definition letters :: string where
  "letters = ''abcdefghijklmnopqrstuvwxyzABCDEFGHIJKLMNOPQRSTUVWXYZ''"

definition digits :: string where
  "digits = ''0123456789''"

text \<open>
  \<open>emailRegex\<close> is \<^verbatim>\<open>^[a-zA-Z0-9._%+-]+@[a-zA-Z0-9.-]+\.[a-zA-Z]{2,}$\<close>. Neither
  character class contains \<open>@\<close>, so the local part ends at the first \<open>@\<close>; the last
  group contains no dot, so it is what follows the last dot.
\<close>

definition emailRegex_MatchString :: "string \<Rightarrow> bool" where
  "emailRegex_MatchString s =
     (let local = takeWhile (\<lambda>c. c \<noteq> CHR ''@'') s;
          rest = dropWhile (\<lambda>c. c \<noteq> CHR ''@'') s
      in case rest of
           [] \<Rightarrow> False
         | _ # domain \<Rightarrow>
             (let tld_r = takeWhile (\<lambda>c. c \<noteq> CHR ''.'') (rev domain);
                  rest_r = dropWhile (\<lambda>c. c \<noteq> CHR ''.'') (rev domain)
              in case rest_r of
                   [] \<Rightarrow> False
                 | _ # host_r \<Rightarrow>
                     local \<noteq> [] \<and> list_all (\<lambda>c. c \<in> set (letters @ digits @ ''._%+-'')) local \<and>
                     host_r \<noteq> [] \<and> list_all (\<lambda>c. c \<in> set (letters @ digits @ ''.-'')) host_r \<and>
                     2 \<le> length tld_r \<and> list_all (\<lambda>c. c \<in> set letters) tld_r))"

text \<open>\<open>aliasRegex\<close> is \<^verbatim>\<open>^[a-zA-Z0-9_-]+$\<close>.\<close>

definition aliasRegex_MatchString :: "string \<Rightarrow> bool" where
  "aliasRegex_MatchString s = (s \<noteq> [] \<and> list_all (\<lambda>c. c \<in> set (letters @ digits @ ''_-'')) s)"

definition ValidateEmail :: "string \<Rightarrow> error option" where
  "ValidateEmail e =
     (if e = [] then Some (Err ''email cannot be empty'')
      else if \<not> emailRegex_MatchString e then Some (Err ''invalid email format'')
      else None)"

definition validateAlias :: "string \<Rightarrow> error option" where
  "validateAlias a =
     (if CHR '' '' \<in> set a then Some (Err ''alias cannot contain spaces'')
      else if \<not> aliasRegex_MatchString a
      then Some (Err ''alias can only contain letters, numbers, hyphens, and underscores'')
      else None)"

definition hex_EncodeToString :: "string \<Rightarrow> string" where
  "hex_EncodeToString bs =
     concat (map (\<lambda>b. [''0123456789abcdef'' ! (of_char b div 16),
                        ''0123456789abcdef'' ! (of_char b mod 16)]) bs)"

definition GenerateAccountID :: "Env \<Rightarrow> AccountID" where
  "GenerateAccountID env =
     (case rand_Read 4 (idEntropy env) of
        None \<Rightarrow> today env
      | Some bytes \<Rightarrow> hex_EncodeToString bytes)"

definition NewAccount :: "Env \<Rightarrow> string \<Rightarrow> string \<Rightarrow> string \<Rightarrow> error + Account" where
  "NewAccount env e a u =
     (case ValidateEmail e of
        Some err \<Rightarrow> Inl err
      | None \<Rightarrow>
          if u = [] then Inl (Err ''uuid cannot be empty'')
          else (case (if a \<noteq> [] then validateAlias a else None) of
                  Some err \<Rightarrow> Inl err
                | None \<Rightarrow>
                    Inr \<lparr>acc_id = GenerateAccountID env, email = e, acc_alias = a, uuid = u,
                         createdAt = now env, lastUsed = now env\<rparr>))"

subsection \<open>Credentials (credentials.go)\<close>

text \<open>
  SHA-256 and AES-GCM come from the Go standard library, not from this repository; they
  are parameters of the model. \<open>gcm_Seal k n p\<close> is the ciphertext with its tag,
  \<open>gcm_Open k n c\<close> is \<open>None\<close> when authentication fails. The nonce of the standard
  GCM has 12 bytes, and \<open>aes.NewCipher\<close> accepts keys of 16, 24 or 32 bytes.
\<close>

record Crypto =
  sha256_Sum256 :: "string \<Rightarrow> string"
  gcm_Seal :: "string \<Rightarrow> string \<Rightarrow> string \<Rightarrow> string"
  gcm_Open :: "string \<Rightarrow> string \<Rightarrow> string \<Rightarrow> string option"

definition gcm_NonceSize :: nat where
  "gcm_NonceSize = 12"

definition aes_NewCipher :: "string \<Rightarrow> error option" where
  "aes_NewCipher key =
     (if length key = 16 \<or> length key = 24 \<or> length key = 32 then None
      else Some (Err ''crypto/aes: invalid key size''))"

record Credentials =
  accountID :: AccountID
  encryptedData :: string
  encryptionKey :: string

definition deriveKey :: "Crypto \<Rightarrow> AccountID \<Rightarrow> string" where
  "deriveKey C i = sha256_Sum256 C (''ccx-encryption-'' @ i)"

text \<open>\<open>gcm.Seal(nonce, nonce, plaintext, nil)\<close> appends the sealed text to the nonce.\<close>

definition encrypt :: "Crypto \<Rightarrow> string \<Rightarrow> string \<Rightarrow> string \<Rightarrow> error + string" where
  "encrypt C entropy plaintext key =
     (case aes_NewCipher key of
        Some err \<Rightarrow> Inl err
      | None \<Rightarrow>
          (case rand_Read gcm_NonceSize entropy of
             None \<Rightarrow> Inl (Err ''unexpected EOF'')
           | Some nonce \<Rightarrow> Inr (nonce @ gcm_Seal C key nonce plaintext)))"

definition decrypt :: "Crypto \<Rightarrow> string \<Rightarrow> string \<Rightarrow> error + string" where
  "decrypt C ciphertext key =
     (case aes_NewCipher key of
        Some err \<Rightarrow> Inl err
      | None \<Rightarrow>
          if length ciphertext < gcm_NonceSize then Inl (Err ''ciphertext too short'')
          else (case gcm_Open C key (take gcm_NonceSize ciphertext)
                                    (drop gcm_NonceSize ciphertext) of
                  None \<Rightarrow> Inl (Err ''cipher: message authentication failed'')
                | Some plaintext \<Rightarrow> Inr plaintext))"

definition NewCredentials :: "Crypto \<Rightarrow> string \<Rightarrow> AccountID \<Rightarrow> string \<Rightarrow> error + Credentials" where
  "NewCredentials C entropy i data =
     (if i = [] then Inl (Err ''account ID cannot be empty'')
      else if data = [] then Inl (Err ''credentials data cannot be empty'')
      else (case encrypt C entropy data (deriveKey C i) of
              Inl err \<Rightarrow> Inl err
            | Inr enc \<Rightarrow>
                Inr \<lparr>accountID = i, encryptedData = enc, encryptionKey = deriveKey C i\<rparr>))"

definition Decrypt :: "Crypto \<Rightarrow> Credentials \<Rightarrow> error + string" where
  "Decrypt C c = decrypt C (encryptedData c) (encryptionKey c)"

text \<open>
  A stand-in for the two primitives, used to run the model on concrete inputs: the key
  is the identifier padded to 32 bytes, and the sealed text is the plaintext followed by
  a 16-byte tag made of the key's first half and checked on opening.
\<close>

definition toyCrypto :: Crypto where
  "toyCrypto =
     \<lparr>sha256_Sum256 = (\<lambda>x. take 32 (x @ ''00000000000000000000000000000000'')),
      gcm_Seal = (\<lambda>k n p. p @ take 16 k),
      gcm_Open = (\<lambda>k n c.
         if 16 \<le> length c \<and> drop (length c - 16) c = take 16 k
         then Some (take (length c - 16) c) else None)\<rparr>"

section \<open>The stores behind the ports\<close>

text \<open>
  The orchestrators reach their stores through the four ports. The stores modelled here
  are the in-memory ones of the use-case tests, with the error each operation can be
  made to return; an operation that returns its error changes nothing. The repository
  and the credential store of the removal tests extend the plain ones by \<open>deleteErr\<close>;
  a plain store is one whose \<open>deleteErr\<close> is \<open>None\<close>. None of the stores looks at
  the context it is given.

  The account map is kept as an association list: \<open>Save\<close> replaces the account of the
  same identifier or appends a new one, and the list's order stands for the order in which
  the map is traversed.
\<close>

record mockAccountRepository =
  accounts :: "(AccountID \<times> Account) list"
  acc_saveErr :: "error option"
  acc_findErr :: "error option"
  acc_deleteErr :: "error option"

record mockCredentialStore =
  credentials :: "AccountID \<rightharpoonup> Credentials"
  storeErr :: "error option"
  retrieveErr :: "error option"
  cred_deleteErr :: "error option"

record mockConfigManager =
  currentAccount :: "Account option"
  getErr :: "error option"
  setErr :: "error option"

record mockHistoryRepository =
  history :: History
  hist_saveErr :: "error option"
  loadErr :: "error option"
  saveCalls :: nat

record Stores =
  accountRepo :: mockAccountRepository
  credentialStore :: mockCredentialStore
  configManager :: mockConfigManager
  historyRepo :: mockHistoryRepository

definition AccountRepository_Save ::
  "Account \<Rightarrow> mockAccountRepository \<Rightarrow> error option \<times> mockAccountRepository" where
  "AccountRepository_Save account m =
     (case acc_saveErr m of
        Some err \<Rightarrow> (Some err, m)
      | None \<Rightarrow> (None, m\<lparr>accounts := AList.update (acc_id account) account (accounts m)\<rparr>))"

definition AccountRepository_FindByID ::
  "AccountID \<Rightarrow> mockAccountRepository \<Rightarrow> error + Account" where
  "AccountRepository_FindByID i m =
     (case acc_findErr m of
        Some err \<Rightarrow> Inl err
      | None \<Rightarrow>
          (case map_of (accounts m) i of
             None \<Rightarrow> Inl (Err ''account not found'')
           | Some account \<Rightarrow> Inr account))"

definition AccountRepository_FindByEmail ::
  "Email \<Rightarrow> mockAccountRepository \<Rightarrow> error + Account" where
  "AccountRepository_FindByEmail e m =
     (case acc_findErr m of
        Some err \<Rightarrow> Inl err
      | None \<Rightarrow>
          (case find (\<lambda>account. email account = e) (map snd (accounts m)) of
             None \<Rightarrow> Inl (Err ''account not found'')
           | Some account \<Rightarrow> Inr account))"

definition AccountRepository_FindByAlias ::
  "string \<Rightarrow> mockAccountRepository \<Rightarrow> error + Account" where
  "AccountRepository_FindByAlias a m =
     (case acc_findErr m of
        Some err \<Rightarrow> Inl err
      | None \<Rightarrow>
          (case find (\<lambda>account. acc_alias account = a) (map snd (accounts m)) of
             None \<Rightarrow> Inl (Err ''account not found'')
           | Some account \<Rightarrow> Inr account))"

definition AccountRepository_List :: "mockAccountRepository \<Rightarrow> error + Account list" where
  "AccountRepository_List m =
     (case acc_findErr m of
        Some err \<Rightarrow> Inl err
      | None \<Rightarrow> Inr (map snd (accounts m)))"

definition AccountRepository_Delete ::
  "AccountID \<Rightarrow> mockAccountRepository \<Rightarrow> error option \<times> mockAccountRepository" where
  "AccountRepository_Delete i m =
     (case acc_deleteErr m of
        Some err \<Rightarrow> (Some err, m)
      | None \<Rightarrow> (None, m\<lparr>accounts := AList.delete i (accounts m)\<rparr>))"

definition CredentialStore_Store ::
  "Credentials \<Rightarrow> mockCredentialStore \<Rightarrow> error option \<times> mockCredentialStore" where
  "CredentialStore_Store creds m =
     (case storeErr m of
        Some err \<Rightarrow> (Some err, m)
      | None \<Rightarrow> (None, m\<lparr>credentials := (credentials m)(accountID creds \<mapsto> creds)\<rparr>))"

definition CredentialStore_Retrieve ::
  "AccountID \<Rightarrow> mockCredentialStore \<Rightarrow> error + Credentials" where
  "CredentialStore_Retrieve i m =
     (case retrieveErr m of
        Some err \<Rightarrow> Inl err
      | None \<Rightarrow>
          (case credentials m i of
             None \<Rightarrow> Inl (Err ''credentials not found'')
           | Some creds \<Rightarrow> Inr creds))"

definition CredentialStore_Delete ::
  "AccountID \<Rightarrow> mockCredentialStore \<Rightarrow> error option \<times> mockCredentialStore" where
  "CredentialStore_Delete i m =
     (case cred_deleteErr m of
        Some err \<Rightarrow> (Some err, m)
      | None \<Rightarrow> (None, m\<lparr>credentials := (credentials m)(i := None)\<rparr>))"

definition ConfigManager_GetCurrentAccount ::
  "mockConfigManager \<Rightarrow> error + Account option" where
  "ConfigManager_GetCurrentAccount m =
     (case getErr m of
        Some err \<Rightarrow> Inl err
      | None \<Rightarrow> Inr (currentAccount m))"

definition ConfigManager_SetCurrentAccount ::
  "Account option \<Rightarrow> mockConfigManager \<Rightarrow> error option \<times> mockConfigManager" where
  "ConfigManager_SetCurrentAccount account m =
     (case setErr m of
        Some err \<Rightarrow> (Some err, m)
      | None \<Rightarrow> (None, m\<lparr>currentAccount := account\<rparr>))"

text \<open>\<open>SaveHistory\<close> counts the call before it looks at its error.\<close>

definition HistoryRepository_SaveHistory ::
  "History \<Rightarrow> mockHistoryRepository \<Rightarrow> error option \<times> mockHistoryRepository" where
  "HistoryRepository_SaveHistory h m =
     (let m1 = m\<lparr>saveCalls := saveCalls m + 1\<rparr>
      in case hist_saveErr m1 of
           Some err \<Rightarrow> (Some err, m1)
         | None \<Rightarrow> (None, m1\<lparr>history := h\<rparr>))"

definition HistoryRepository_LoadHistory :: "mockHistoryRepository \<Rightarrow> error + History" where
  "HistoryRepository_LoadHistory m =
     (case loadErr m of
        Some err \<Rightarrow> Inl err
      | None \<Rightarrow> Inr (history m))"

section \<open>Use cases\<close>

text \<open>
  An operation takes the stores and returns them as it leaves them. The context is
  passed as the value of \<open>ctx.Err()\<close>: \<open>None\<close> while the context is live.
\<close>

type_synonym Context = "error option"

record AccountInfo =
  info_ID :: string
  info_Email :: string
  info_Alias :: string
  info_UUID :: string
  info_CreatedAt :: Time

definition accountToInfo :: "Account \<Rightarrow> AccountInfo" where
  "accountToInfo account =
     \<lparr>info_ID = acc_id account, info_Email = email account, info_Alias = acc_alias account,
      info_UUID = uuid account, info_CreatedAt = createdAt account\<rparr>"

subsection \<open>Adding an account (add_account.go)\<close>

record AddAccountInput =
  add_Email :: string
  add_Alias :: string
  add_Credentials :: string

definition determineAccountDetails ::
  "Context \<Rightarrow> AddAccountInput \<Rightarrow> Stores \<Rightarrow> error + (string \<times> string \<times> string)" where
  "determineAccountDetails ctx input w =
     (if add_Email input \<noteq> []
      then (if add_Credentials input = []
            then Inl (Err ''credentials must be provided when email is specified explicitly'')
            else Inr (add_Email input,
                      ''explicit-'' @ map (\<lambda>c. if c = CHR ''@'' then CHR ''-'' else c) (add_Email input),
                      add_Credentials input))
      else (case ConfigManager_GetCurrentAccount (configManager w) of
              Inl err \<Rightarrow> Inl (Errf ''failed to get current Claude account'' err)
            | Inr None \<Rightarrow>
                Inl (Err ''no current Claude account found - please configure Claude or provide explicit email'')
            | Inr (Some current) \<Rightarrow>
                Inr (email current, uuid current,
                     if add_Credentials input \<noteq> [] then add_Credentials input
                     else ''{'' @ [CHR 0x22] @ ''account_id'' @ [CHR 0x22] @ '': '' @ [CHR 0x22]
                          @ uuid current @ [CHR 0x22] @ '', '' @ [CHR 0x22] @ ''session_key''
                          @ [CHR 0x22] @ '': '' @ [CHR 0x22] @ ''placeholder'' @ [CHR 0x22] @ ''}'')))"

definition checkAccountExists :: "Context \<Rightarrow> string \<Rightarrow> Stores \<Rightarrow> error option" where
  "checkAccountExists ctx e w =
     (case AccountRepository_FindByEmail e (accountRepo w) of
        Inr _ \<Rightarrow> Some (ErrAccountExists e)
      | Inl _ \<Rightarrow> None)"

text \<open>\<open>strings.Split(email, "@")\<close> always has a first part: the text before the first \<open>@\<close>.\<close>

definition generateAlias :: "string \<Rightarrow> string \<Rightarrow> string" where
  "generateAlias inputAlias e =
     (if inputAlias \<noteq> [] then inputAlias else takeWhile (\<lambda>c. c \<noteq> CHR ''@'') e)"

definition createAndSaveAccount ::
  "Crypto \<Rightarrow> Env \<Rightarrow> Context \<Rightarrow> string \<Rightarrow> string \<Rightarrow> string \<Rightarrow> string \<Rightarrow> Stores
     \<Rightarrow> error option \<times> Stores" where
  "createAndSaveAccount C env ctx e a u credentialData w =
     (case NewAccount env e a u of
        Inl err \<Rightarrow> (Some (Errf ''failed to create account'' err), w)
      | Inr account \<Rightarrow>
          (case NewCredentials C (nonceEntropy env) (acc_id account) credentialData of
             Inl err \<Rightarrow> (Some (Errf ''failed to create credentials'' err), w)
           | Inr creds \<Rightarrow>
               (case CredentialStore_Store creds (credentialStore w) of
                  (Some err, cs) \<Rightarrow>
                    (Some (Errf ''failed to store credentials'' err), w\<lparr>credentialStore := cs\<rparr>)
                | (None, cs) \<Rightarrow>
                    (case AccountRepository_Save account (accountRepo w) of
                       (Some err, ar) \<Rightarrow>
                         (Some (Errf ''failed to save account'' err),
                          w\<lparr>accountRepo := ar,
                            credentialStore := snd (CredentialStore_Delete (acc_id account) cs)\<rparr>)
                     | (None, ar) \<Rightarrow> (None, w\<lparr>accountRepo := ar, credentialStore := cs\<rparr>)))))"

definition AddAccount_Execute ::
  "Crypto \<Rightarrow> Env \<Rightarrow> Context \<Rightarrow> AddAccountInput \<Rightarrow> Stores \<Rightarrow> error option \<times> Stores" where
  "AddAccount_Execute C env ctx input w =
     (case determineAccountDetails ctx input w of
        Inl err \<Rightarrow> (Some err, w)
      | Inr (e, u, credentialData) \<Rightarrow>
          (case checkAccountExists ctx e w of
             Some err \<Rightarrow> (Some err, w)
           | None \<Rightarrow>
               createAndSaveAccount C env ctx e (generateAlias (add_Alias input) e) u
                 credentialData w))"

subsection \<open>Switching the current account (switch_account.go)\<close>

record SwitchAccountInput =
  sw_AccountID :: string
  sw_Email :: string
  sw_Alias :: string
  sw_Index :: int
  sw_Previous :: bool

record SwitchAccountResult =
  From :: "AccountInfo option"
  To :: AccountInfo

definition getPreviousAccount :: "Stores \<Rightarrow> error + Account" where
  "getPreviousAccount w =
     (case HistoryRepository_LoadHistory (historyRepo w) of
        Inl err \<Rightarrow> Inl (Errf ''failed to load history'' err)
      | Inr h \<Rightarrow>
          (case GetLastSwitch h of
             None \<Rightarrow> Inl (Err ''no previous account in history'')
           | Some lastSwitch \<Rightarrow>
               AccountRepository_FindByEmail (from_email lastSwitch) (accountRepo w)))"

definition findByIndex :: "int \<Rightarrow> Stores \<Rightarrow> error + Account" where
  "findByIndex index w =
     (if index \<le> 0 then Inl (ErrInvalidIndex index)
      else (case AccountRepository_List (accountRepo w) of
              Inl err \<Rightarrow> Inl (Errf ''failed to list accounts'' err)
            | Inr accs \<Rightarrow>
                if index > int (length accs) then Inl (ErrIndexOutOfRange index (length accs))
                else Inr (accs ! nat (index - 1))))"

definition determineTargetAccount :: "SwitchAccountInput \<Rightarrow> Stores \<Rightarrow> error + Account" where
  "determineTargetAccount input w =
     (if sw_Previous input
      then (if sw_AccountID input \<noteq> [] \<or> sw_Email input \<noteq> [] \<or> sw_Alias input \<noteq> []
               \<or> sw_Index input > 0
            then Inl (Err ''previous flag cannot be combined with other input methods'')
            else getPreviousAccount w)
      else (let inputCount =
                  (if sw_AccountID input \<noteq> [] then 1 else 0) +
                  (if sw_Email input \<noteq> [] then 1 else 0) +
                  (if sw_Alias input \<noteq> [] then 1 else 0) +
                  (if sw_Index input > 0 then 1 else (0::nat))
            in if inputCount = 0 then Inl (Err ''no account identifier provided'')
               else if inputCount > 1
               then Inl (Err ''multiple account identifiers provided; use only one'')
               else if sw_AccountID input \<noteq> []
               then AccountRepository_FindByID (sw_AccountID input) (accountRepo w)
               else if sw_Email input \<noteq> []
               then AccountRepository_FindByEmail (sw_Email input) (accountRepo w)
               else if sw_Alias input \<noteq> []
               then AccountRepository_FindByAlias (sw_Alias input) (accountRepo w)
               else if sw_Index input > 0 then findByIndex (sw_Index input) w
               else Inl (Err ''internal error: invalid input state'')))"

text \<open>
  \<open>LoadHistory\<close> hands out the repository's own ledger, and \<open>AddEntry\<close> changes that
  ledger in place: after a successful load the repository already holds the new entry
  when \<open>SaveHistory\<close> is called. A ledger made by \<open>NewHistory\<close> after a failed load is a
  new object, which the repository holds only once \<open>SaveHistory\<close> has succeeded.
\<close>

definition saveToHistory :: "Env \<Rightarrow> Email \<Rightarrow> Email \<Rightarrow> Stores \<Rightarrow> error option \<times> Stores" where
  "saveToHistory env from to w =
     (case HistoryRepository_LoadHistory (historyRepo w) of
        Inl _ \<Rightarrow>
          (case NewSwitchEntry from to (now env) of
             Inl err \<Rightarrow> (Some (Errf ''failed to create switch entry'' err), w)
           | Inr entry \<Rightarrow>
               (case HistoryRepository_SaveHistory (AddEntry (NewHistory 50) (Some entry))
                       (historyRepo w) of
                  (r, hr) \<Rightarrow> (r, w\<lparr>historyRepo := hr\<rparr>)))
      | Inr h \<Rightarrow>
          (case NewSwitchEntry from to (now env) of
             Inl err \<Rightarrow> (Some (Errf ''failed to create switch entry'' err), w)
           | Inr entry \<Rightarrow>
               (case HistoryRepository_SaveHistory (AddEntry h (Some entry))
                       ((historyRepo w)\<lparr>history := AddEntry h (Some entry)\<rparr>) of
                  (r, hr) \<Rightarrow> (r, w\<lparr>historyRepo := hr\<rparr>))))"

definition SwitchAccount_Execute ::
  "Env \<Rightarrow> Context \<Rightarrow> SwitchAccountInput \<Rightarrow> Stores
     \<Rightarrow> (error + SwitchAccountResult) \<times> Stores" where
  "SwitchAccount_Execute env ctx input w =
     (case ctx of
        Some err \<Rightarrow> (Inl (Errf ''context cancelled'' err), w)
      | None \<Rightarrow>
     (case ConfigManager_GetCurrentAccount (configManager w) of
        Inl err \<Rightarrow> (Inl (Errf ''failed to get current account'' err), w)
      | Inr current \<Rightarrow>
     (case determineTargetAccount input w of
        Inl err \<Rightarrow> (Inl err, w)
      | Inr target \<Rightarrow>
     (case (case current of
              None \<Rightarrow> None
            | Some cur \<Rightarrow> if acc_id cur = acc_id target then Some cur else None) of
        Some cur \<Rightarrow> (Inr \<lparr>From = Some (accountToInfo cur), To = accountToInfo cur\<rparr>, w)
      | None \<Rightarrow>
     (case CredentialStore_Retrieve (acc_id target) (credentialStore w) of
        Inl err \<Rightarrow> (Inl (ErrRetrieveCredentials (acc_alias target) err), w)
      | Inr _ \<Rightarrow>
     (case ConfigManager_SetCurrentAccount (Some target) (configManager w) of
        (Some err, cm) \<Rightarrow> (Inl (Errf ''failed to set current account'' err), w\<lparr>configManager := cm\<rparr>)
      | (None, cm) \<Rightarrow>
          (let w1 = w\<lparr>configManager := cm\<rparr>;
               w2 = (case current of
                       None \<Rightarrow> w1
                     | Some cur \<Rightarrow> snd (saveToHistory env (email cur) (email target) w1))
           in (Inr \<lparr>From = map_option accountToInfo current, To = accountToInfo target\<rparr>,
               w2))))))))"

subsection \<open>Removing an account (remove_account.go)\<close>

record RemoveAccountInput =
  rm_AccountID :: string

record RemoveAccountResult =
  RemovedAccount :: AccountInfo
  WasCurrentAccount :: bool
  WasLastAccount :: bool

record removalMetadata =
  accountInfo :: AccountInfo
  isCurrentAccount :: bool
  isLastAccount :: bool
  backupCredentials :: "Credentials option"

definition validateInput :: "Context \<Rightarrow> RemoveAccountInput \<Rightarrow> error option" where
  "validateInput ctx input =
     (if rm_AccountID input = [] then Some (Err ''account ID is required'') else ctx)"

definition getRemovalMetadata :: "Account \<Rightarrow> Stores \<Rightarrow> error + removalMetadata" where
  "getRemovalMetadata account w =
     (let current = (case ConfigManager_GetCurrentAccount (configManager w) of
                       Inl _ \<Rightarrow> None
                     | Inr c \<Rightarrow> c);
          isCurrent = (case current of
                         None \<Rightarrow> False
                       | Some cur \<Rightarrow> acc_id cur = acc_id account)
      in case AccountRepository_List (accountRepo w) of
           Inl err \<Rightarrow> Inl (Errf ''failed to check account count'' err)
         | Inr allAccounts \<Rightarrow>
             Inr \<lparr>accountInfo = accountToInfo account,
                  isCurrentAccount = isCurrent,
                  isLastAccount = (length allAccounts = 1),
                  backupCredentials =
                    (case CredentialStore_Retrieve (acc_id account) (credentialStore w) of
                       Inr creds \<Rightarrow> Some creds
                     | Inl _ \<Rightarrow> None)\<rparr>)"

definition rollbackCredentials :: "Credentials option \<Rightarrow> Stores \<Rightarrow> Stores" where
  "rollbackCredentials backup w =
     (case backup of
        None \<Rightarrow> w
      | Some creds \<Rightarrow>
          w\<lparr>credentialStore := snd (CredentialStore_Store creds (credentialStore w))\<rparr>)"

definition rollbackFull :: "Account \<Rightarrow> Credentials option \<Rightarrow> Stores \<Rightarrow> Stores" where
  "rollbackFull account backup w =
     rollbackCredentials backup
       (w\<lparr>accountRepo := snd (AccountRepository_Save account (accountRepo w))\<rparr>)"

definition updateHistory :: "Stores \<Rightarrow> Stores" where
  "updateHistory w =
     (case HistoryRepository_LoadHistory (historyRepo w) of
        Inl _ \<Rightarrow> w
      | Inr currentHistory \<Rightarrow>
          w\<lparr>historyRepo := snd (HistoryRepository_SaveHistory currentHistory (historyRepo w))\<rparr>)"

definition performRemoval :: "Account \<Rightarrow> removalMetadata \<Rightarrow> Stores \<Rightarrow> error option \<times> Stores" where
  "performRemoval account metadata w =
     (case CredentialStore_Delete (acc_id account) (credentialStore w) of
        (Some err, cs) \<Rightarrow>
          (Some (Errf ''failed to delete credentials'' err), w\<lparr>credentialStore := cs\<rparr>)
      | (None, cs) \<Rightarrow>
     (case AccountRepository_Delete (acc_id account) (accountRepo w) of
        (Some err, ar) \<Rightarrow>
          (Some (Errf ''failed to delete account'' err),
           rollbackCredentials (backupCredentials metadata)
             (w\<lparr>credentialStore := cs, accountRepo := ar\<rparr>))
      | (None, ar) \<Rightarrow>
          (let w1 = w\<lparr>credentialStore := cs, accountRepo := ar\<rparr>
           in if isCurrentAccount metadata
              then (case ConfigManager_SetCurrentAccount None (configManager w1) of
                      (Some err, cm) \<Rightarrow>
                        (Some (Errf ''failed to clear current account configuration'' err),
                         rollbackFull account (backupCredentials metadata)
                           (w1\<lparr>configManager := cm\<rparr>))
                    | (None, cm) \<Rightarrow> (None, updateHistory (w1\<lparr>configManager := cm\<rparr>)))
              else (None, w1))))"

definition RemoveAccount_Execute ::
  "Context \<Rightarrow> RemoveAccountInput \<Rightarrow> Stores \<Rightarrow> (error + RemoveAccountResult) \<times> Stores" where
  "RemoveAccount_Execute ctx input w =
     (case validateInput ctx input of
        Some err \<Rightarrow> (Inl err, w)
      | None \<Rightarrow>
     (case AccountRepository_FindByID (rm_AccountID input) (accountRepo w) of
        Inl err \<Rightarrow> (Inl (Errf ''failed to find account'' err), w)
      | Inr account \<Rightarrow>
     (case getRemovalMetadata account w of
        Inl err \<Rightarrow> (Inl err, w)
      | Inr metadata \<Rightarrow>
     (case performRemoval account metadata w of
        (Some err, w1) \<Rightarrow> (Inl err, w1)
      | (None, w1) \<Rightarrow>
          (Inr \<lparr>RemovedAccount = accountInfo metadata,
                WasCurrentAccount = isCurrentAccount metadata,
                WasLastAccount = isLastAccount metadata\<rparr>, w1)))))"

section \<open>Concrete stores\<close>

text \<open>
  The stores of the use-case tests: three accounts with their credentials, the first of
  them current, an empty ledger of capacity 10, and no operation set to fail. The
  functions after it set one operation to fail, as the tests do.
\<close>

definition testEnv :: Env where
  "testEnv = \<lparr>now = 1000, today = ''20231114'',
              idEntropy = [CHR 0x01, CHR 0xAB, CHR 0x7F, CHR 0xE0],
              nonceEntropy = ''0123456789ab''\<rparr>"

definition personal :: Account where
  "personal = \<lparr>acc_id = ''aaaa0001'', email = ''personal@example.com'', acc_alias = ''personal'',
               uuid = ''uuid-personal'', createdAt = 100, lastUsed = 100\<rparr>"

definition work :: Account where
  "work = \<lparr>acc_id = ''aaaa0002'', email = ''work@example.com'', acc_alias = ''work'',
           uuid = ''uuid-work'', createdAt = 200, lastUsed = 200\<rparr>"

definition test :: Account where
  "test = \<lparr>acc_id = ''aaaa0003'', email = ''test@example.com'', acc_alias = ''test'',
           uuid = ''uuid-test'', createdAt = 300, lastUsed = 300\<rparr>"

definition credsOf :: "Account \<Rightarrow> Credentials" where
  "credsOf a = \<lparr>accountID = acc_id a, encryptedData = ''sealed-'' @ acc_alias a,
                encryptionKey = deriveKey toyCrypto (acc_id a)\<rparr>"

definition testStores :: Stores where
  "testStores =
     \<lparr>accountRepo = \<lparr>accounts = [(acc_id personal, personal), (acc_id work, work), (acc_id test, test)],
                      acc_saveErr = None, acc_findErr = None, acc_deleteErr = None\<rparr>,
      credentialStore = \<lparr>credentials = [acc_id personal \<mapsto> credsOf personal,
                                         acc_id work \<mapsto> credsOf work,
                                         acc_id test \<mapsto> credsOf test],
                          storeErr = None, retrieveErr = None, cred_deleteErr = None\<rparr>,
      configManager = \<lparr>currentAccount = Some personal, getErr = None, setErr = None\<rparr>,
      historyRepo = \<lparr>history = NewHistory 10, hist_saveErr = None, loadErr = None, saveCalls = 0\<rparr>\<rparr>"

definition addInput :: AddAccountInput where
  "addInput = \<lparr>add_Email = ''a@example.com'', add_Alias = [], add_Credentials = [CHR 0x01, CHR 0x02]\<rparr>"

definition addFromConfig :: AddAccountInput where
  "addFromConfig = \<lparr>add_Email = [], add_Alias = ''second'', add_Credentials = ''xy''\<rparr>"

definition byAlias :: "string \<Rightarrow> SwitchAccountInput" where
  "byAlias a = \<lparr>sw_AccountID = [], sw_Email = [], sw_Alias = a, sw_Index = 0, sw_Previous = False\<rparr>"

definition byIndex :: "int \<Rightarrow> SwitchAccountInput" where
  "byIndex i = \<lparr>sw_AccountID = [], sw_Email = [], sw_Alias = [], sw_Index = i, sw_Previous = False\<rparr>"

definition failingSave :: "Stores \<Rightarrow> Stores" where
  "failingSave w = w\<lparr>accountRepo := (accountRepo w)\<lparr>acc_saveErr := Some (Err ''disk full'')\<rparr>\<rparr>"

definition failingFind :: "Stores \<Rightarrow> Stores" where
  "failingFind w = w\<lparr>accountRepo := (accountRepo w)\<lparr>acc_findErr := Some (Err ''disk unreadable'')\<rparr>\<rparr>"

definition failingAccountDelete :: "Stores \<Rightarrow> Stores" where
  "failingAccountDelete w =
     w\<lparr>accountRepo := (accountRepo w)\<lparr>acc_deleteErr := Some (Err ''database locked'')\<rparr>\<rparr>"

definition failingCredentialStore :: "Stores \<Rightarrow> Stores" where
  "failingCredentialStore w =
     w\<lparr>credentialStore := (credentialStore w)\<lparr>storeErr := Some (Err ''keychain unavailable'')\<rparr>\<rparr>"

definition failingCredentialDelete :: "Stores \<Rightarrow> Stores" where
  "failingCredentialDelete w =
     w\<lparr>credentialStore := (credentialStore w)\<lparr>cred_deleteErr := Some (Err ''keychain locked'')\<rparr>\<rparr>"

definition missingCredentials :: "AccountID \<Rightarrow> Stores \<Rightarrow> Stores" where
  "missingCredentials i w =
     w\<lparr>credentialStore :=
         (credentialStore w)\<lparr>credentials := (credentials (credentialStore w))(i := None)\<rparr>\<rparr>"

definition failingLoad :: "Stores \<Rightarrow> Stores" where
  "failingLoad w = w\<lparr>historyRepo := (historyRepo w)\<lparr>loadErr := Some (Err ''history unreadable'')\<rparr>\<rparr>"

definition failingSet :: "Stores \<Rightarrow> Stores" where
  "failingSet w = w\<lparr>configManager := (configManager w)\<lparr>setErr := Some (Err ''config not writable'')\<rparr>\<rparr>"

section \<open>Unfolding rules\<close>

lemmas store_defs = AccountRepository_Save_def AccountRepository_FindByID_def AccountRepository_FindByEmail_def
  AccountRepository_FindByAlias_def AccountRepository_List_def AccountRepository_Delete_def
  CredentialStore_Store_def CredentialStore_Retrieve_def CredentialStore_Delete_def
  ConfigManager_GetCurrentAccount_def ConfigManager_SetCurrentAccount_def
  HistoryRepository_SaveHistory_def HistoryRepository_LoadHistory_def

lemmas fixture_defs = testEnv_def personal_def work_def test_def credsOf_def testStores_def
  addInput_def byAlias_def byIndex_def

lemmas account_defs = NewAccount_def ValidateEmail_def validateAlias_def emailRegex_MatchString_def
  aliasRegex_MatchString_def letters_def digits_def GenerateAccountID_def rand_Read_def
  hex_EncodeToString_def

lemmas credential_defs = NewCredentials_def encrypt_def decrypt_def Decrypt_def deriveKey_def
  aes_NewCipher_def gcm_NonceSize_def rand_Read_def

lemmas add_defs = AddAccount_Execute_def determineAccountDetails_def checkAccountExists_def
  generateAlias_def createAndSaveAccount_def

lemmas failing_defs = failingSave_def failingFind_def failingAccountDelete_def
  failingCredentialStore_def failingCredentialDelete_def missingCredentials_def failingLoad_def
  failingSet_def

section \<open>The email pattern\<close>

text \<open>
  The matcher accepts exactly the strings of the pattern: a non-empty local part, \<open>@\<close>, a
  non-empty host, a dot, and at least two letters, each part over its character class.
\<close>

lemma takeWhile_dropWhile_split:
  "c \<notin> set l \<Longrightarrow> takeWhile (\<lambda>x. x \<noteq> c) (l @ c # r) = l \<and> dropWhile (\<lambda>x. x \<noteq> c) (l @ c # r) = c # r"
  by (induction l) auto

lemma dropWhile_neq_hd:
  "dropWhile (\<lambda>x. x \<noteq> c) s = y # r \<Longrightarrow> y = c"
  using hd_dropWhile[of "\<lambda>x. x \<noteq> c" s] by auto

lemma emailRegex_MatchString_iff:
  "emailRegex_MatchString s \<longleftrightarrow>
     (\<exists>l h t. s = l @ ''@'' @ h @ ''.'' @ t \<and>
        l \<noteq> [] \<and> set l \<subseteq> set (letters @ digits @ ''._%+-'') \<and>
        h \<noteq> [] \<and> set h \<subseteq> set (letters @ digits @ ''.-'') \<and>
        2 \<le> length t \<and> set t \<subseteq> set letters)"
  (is "?lhs \<longleftrightarrow> ?rhs")
proof
  assume ?lhs
  let ?l = "takeWhile (\<lambda>c. c \<noteq> CHR ''@'') s"
  let ?rest = "dropWhile (\<lambda>c. c \<noteq> CHR ''@'') s"
  from \<open>?lhs\<close> obtain y d where rest: "?rest = y # d"
    by (cases ?rest) (auto simp: emailRegex_MatchString_def Let_def)
  then have y: "y = CHR ''@''"
    by (rule dropWhile_neq_hd)
  let ?tr = "takeWhile (\<lambda>c. c \<noteq> CHR ''.'') (rev d)"
  let ?rr = "dropWhile (\<lambda>c. c \<noteq> CHR ''.'') (rev d)"
  from \<open>?lhs\<close> rest obtain z hr where rr: "?rr = z # hr"
    by (cases ?rr) (auto simp: emailRegex_MatchString_def Let_def)
  then have z: "z = CHR ''.''"
    by (rule dropWhile_neq_hd)
  from \<open>?lhs\<close> rest rr have props:
    "?l \<noteq> []" "list_all (\<lambda>c. c \<in> set (letters @ digits @ ''._%+-'')) ?l"
    "hr \<noteq> []" "list_all (\<lambda>c. c \<in> set (letters @ digits @ ''.-'')) hr"
    "2 \<le> length ?tr" "list_all (\<lambda>c. c \<in> set letters) ?tr"
    by (simp_all add: emailRegex_MatchString_def Let_def)
  have "rev d = ?tr @ ?rr"
    by simp
  then have "d = rev ?rr @ rev ?tr"
    by (metis rev_append rev_rev_ident)
  then have d: "d = rev hr @ ''.'' @ rev ?tr"
    using rr z by simp
  have "s = ?l @ ?rest"
    by simp
  then have "s = ?l @ ''@'' @ rev hr @ ''.'' @ rev ?tr"
    using rest y d by simp
  moreover have "set (rev hr) \<subseteq> set (letters @ digits @ ''.-'')"
    using props(4) by (auto simp: list_all_iff)
  moreover have "set ?l \<subseteq> set (letters @ digits @ ''._%+-'')"
    using props(2) by (auto simp: list_all_iff)
  moreover have "set (rev ?tr) \<subseteq> set letters"
    using props(6) by (auto simp: list_all_iff)
  ultimately show ?rhs
    using props(1,3,5) by (intro exI[of _ ?l] exI[of _ "rev hr"] exI[of _ "rev ?tr"]) simp
next
  assume ?rhs
  then obtain l h t where s: "s = l @ ''@'' @ h @ ''.'' @ t"
    and l: "l \<noteq> []" "set l \<subseteq> set (letters @ digits @ ''._%+-'')"
    and h: "h \<noteq> []" "set h \<subseteq> set (letters @ digits @ ''.-'')"
    and t: "2 \<le> length t" "set t \<subseteq> set letters"
    by blast
  have "CHR ''@'' \<notin> set (letters @ digits @ ''._%+-'')"
    by (simp add: letters_def digits_def)
  then have nl: "CHR ''@'' \<notin> set l"
    using l(2) by blast
  have "CHR ''.'' \<notin> set letters"
    by (simp add: letters_def)
  then have nt: "CHR ''.'' \<notin> set (rev t)"
    using t(2) by auto
  have 1: "takeWhile (\<lambda>c. c \<noteq> CHR ''@'') s = l"
    and 2: "dropWhile (\<lambda>c. c \<noteq> CHR ''@'') s = CHR ''@'' # (h @ ''.'' @ t)"
    using takeWhile_dropWhile_split[OF nl, of "h @ ''.'' @ t"] by (simp_all add: s)
  have r: "rev (h @ ''.'' @ t) = rev t @ CHR ''.'' # rev h"
    by simp
  have 3: "takeWhile (\<lambda>c. c \<noteq> CHR ''.'') (rev (h @ ''.'' @ t)) = rev t"
    and 4: "dropWhile (\<lambda>c. c \<noteq> CHR ''.'') (rev (h @ ''.'' @ t)) = CHR ''.'' # rev h"
    using takeWhile_dropWhile_split[OF nt, of "rev h"] by (simp_all only: r)
  show ?lhs
    unfolding emailRegex_MatchString_def Let_def 1 2 list.case 3 4
    using l h t by (auto simp: list_all_iff)
qed

section \<open>The switch history stays bounded\<close>

lemma take_append_take: "take n (a @ take n b) = take n (a @ b)"
  by (simp add: min_def)

lemma AddEntry_maxEntries: "maxEntries (AddEntry h entry) = maxEntries h"
  by (simp add: AddEntry_def Let_def split: option.split)

lemma AddEntry_Some_entries:
  "0 < maxEntries h \<Longrightarrow>
   entries (AddEntry h (Some e)) = take (nat (maxEntries h)) (e # entries h)"
  by (simp add: AddEntry_def Let_def)

lemma foldl_AddEntry_maxEntries: "maxEntries (foldl AddEntry h es) = maxEntries h"
  by (induction es arbitrary: h) (simp_all add: AddEntry_maxEntries)

lemma foldl_AddEntry_entries:
  "0 < maxEntries h \<Longrightarrow> int (length (entries h)) \<le> maxEntries h \<Longrightarrow>
   entries (foldl AddEntry h (map Some xs)) = take (nat (maxEntries h)) (rev xs @ entries h)"
proof (induction xs arbitrary: h)
  case Nil
  then show ?case
    by simp
next
  case (Cons x xs)
  have m: "0 < maxEntries (AddEntry h (Some x))"
    using Cons.prems by (simp add: AddEntry_maxEntries)
  have l: "int (length (entries (AddEntry h (Some x)))) \<le> maxEntries (AddEntry h (Some x))"
    using Cons.prems by (simp add: AddEntry_maxEntries AddEntry_Some_entries)
  have "take (nat (maxEntries h)) (rev xs @ take (nat (maxEntries h)) (x # entries h)) =
        take (nat (maxEntries h)) (rev xs @ x # entries h)"
    by (rule take_append_take)
  then show ?case
    using Cons.IH[OF m l] Cons.prems
    by (simp add: AddEntry_maxEntries AddEntry_Some_entries)
qed

lemma NewHistory_positive: "0 < maxEntries (NewHistory m)"
  by (simp add: NewHistory_def)

text \<open>
  Claim C6. Start from \<open>NewHistory m\<close> and add the entries \<open>xs\<close> one after the other,
  none of them nil. The capacity is \<open>m\<close>, or 10 when \<open>m\<close> is not positive, and it never
  changes. \<open>Entries\<close> is then the list of the most recent entries, newest first, cut at
  the capacity: its length never exceeds the capacity, and is the capacity as soon as
  more entries than that were added. One more \<open>AddEntry\<close> puts the new entry in front and
  drops what lies beyond the capacity at the tail.
\<close>

theorem History_bounded_newest_first:
  "let h = foldl AddEntry (NewHistory m) (map Some xs)
   in MaxEntries h = (if m \<le> 0 then 10 else m) \<and>
      Entries h = take (nat (MaxEntries h)) (rev xs) \<and>
      int (length (Entries h)) \<le> MaxEntries h \<and>
      length (Entries h) = min (length xs) (nat (MaxEntries h)) \<and>
      Entries (AddEntry h (Some e)) = take (nat (MaxEntries h)) (e # Entries h)"
proof -
  define h where "h = foldl AddEntry (NewHistory m) (map Some xs)"
  have mx: "maxEntries h = (if m \<le> 0 then 10 else m)"
    by (simp add: h_def foldl_AddEntry_maxEntries NewHistory_def)
  have pos: "0 < maxEntries h"
    by (simp add: mx)
  have es: "entries h = take (nat (maxEntries h)) (rev xs)"
    using foldl_AddEntry_entries[of "NewHistory m" xs] NewHistory_positive[of m]
    by (simp add: h_def foldl_AddEntry_maxEntries) (simp add: NewHistory_def)
  have len: "length (entries h) = min (length xs) (nat (maxEntries h))"
    by (simp add: es)
  have bound: "int (length (entries h)) \<le> maxEntries h"
    using pos by (simp add: len)
  have step: "entries (AddEntry h (Some e)) = take (nat (maxEntries h)) (e # entries h)"
    by (rule AddEntry_Some_entries[OF pos])
  show ?thesis
    unfolding Let_def h_def[symmetric] MaxEntries_def Entries_def
    using mx es bound len step by simp
qed

text \<open>Three entries into a ledger of capacity 2: the two newest remain, newest first.\<close>

theorem History_bounded_newest_first_witness:
  "Entries (foldl AddEntry (NewHistory 2)
      (map Some [\<lparr>from_email = ''p'', to_email = ''w'', timestamp = 1\<rparr>,
                 \<lparr>from_email = ''w'', to_email = ''t'', timestamp = 2\<rparr>,
                 \<lparr>from_email = ''t'', to_email = ''p'', timestamp = 3\<rparr>])) =
     [\<lparr>from_email = ''t'', to_email = ''p'', timestamp = 3\<rparr>,
      \<lparr>from_email = ''w'', to_email = ''t'', timestamp = 2\<rparr>]"
  using History_bounded_newest_first[of 2
          "[\<lparr>from_email = ''p'', to_email = ''w'', timestamp = 1\<rparr>,
            \<lparr>from_email = ''w'', to_email = ''t'', timestamp = 2\<rparr>,
            \<lparr>from_email = ''t'', to_email = ''p'', timestamp = 3\<rparr>]"]
  by (simp add: Let_def)

section \<open>Sealing and opening credentials\<close>

lemma toyCrypto_opens_sealed:
  "length k = 32 \<Longrightarrow> length n = 12 \<Longrightarrow> gcm_Open toyCrypto k n (gcm_Seal toyCrypto k n p) = Some p"
  by (simp add: toyCrypto_def)

lemma toyCrypto_key_length: "length (sha256_Sum256 toyCrypto x) = 32"
  by (simp add: toyCrypto_def)

text \<open>
  Claim C5. Let the library's AES-GCM open what it sealed under the same 32-byte key and
  12-byte nonce, and let SHA-256 return 32 bytes. For a non-empty account identifier
  \<open>i\<close> and a non-empty payload \<open>p\<close>, \<open>NewCredentials\<close> fails only when the random source
  cannot deliver a nonce; otherwise it returns credentials for \<open>i\<close> whose \<open>Decrypt\<close> is
  exactly \<open>p\<close>.
\<close>

theorem credentials_round_trip:
  assumes "\<And>k n q. length k = 32 \<Longrightarrow> length n = 12 \<Longrightarrow> gcm_Open C k n (gcm_Seal C k n q) = Some q"
      and "\<And>x. length (sha256_Sum256 C x) = 32"
      and "i \<noteq> []" and "p \<noteq> []"
  shows "if length entropy < 12
         then NewCredentials C entropy i p = Inl (Err ''unexpected EOF'')
         else (\<exists>c. NewCredentials C entropy i p = Inr c \<and> accountID c = i \<and>
                    Decrypt C c = Inr p)"
proof (cases "length entropy < 12")
  case True
  then show ?thesis
    using assms(2,3,4) by (simp add: credential_defs)
next
  case False
  let ?k = "deriveKey C i"
  let ?n = "take 12 entropy"
  have k: "length ?k = 32"
    by (simp add: deriveKey_def assms(2))
  have n: "length ?n = 12"
    using False by simp
  have enc: "encrypt C entropy p ?k = Inr (?n @ gcm_Seal C ?k ?n p)"
    using False k by (simp add: encrypt_def aes_NewCipher_def gcm_NonceSize_def rand_Read_def)
  have dec: "decrypt C (?n @ gcm_Seal C ?k ?n p) ?k = Inr p"
    using k n assms(1)[OF k n, of p]
    by (simp add: decrypt_def aes_NewCipher_def gcm_NonceSize_def)
  show ?thesis
    using False assms(3,4) enc dec
    by (simp add: NewCredentials_def Decrypt_def)
qed

text \<open>The stand-in primitives meet both assumptions; a two-byte payload comes back.\<close>

theorem credentials_round_trip_witness:
  "NewCredentials toyCrypto ''0123456789ab'' ''01ab7fe0'' ''xy'' =
     Inr \<lparr>accountID = ''01ab7fe0'', encryptedData = ''0123456789abxyccx-encryption-0'',
          encryptionKey = ''ccx-encryption-01ab7fe0000000000''\<rparr> \<and>
   Decrypt toyCrypto
     \<lparr>accountID = ''01ab7fe0'', encryptedData = ''0123456789abxyccx-encryption-0'',
      encryptionKey = ''ccx-encryption-01ab7fe0000000000''\<rparr> = Inr ''xy''"
  using credentials_round_trip[of toyCrypto "''01ab7fe0''" "''xy''" "''0123456789ab''",
          OF toyCrypto_opens_sealed toyCrypto_key_length]
  by (simp add: credential_defs toyCrypto_def)

section \<open>Adding an account\<close>

lemma find_is_Some_iff: "(\<exists>x. find P xs = Some x) \<longleftrightarrow> (\<exists>x \<in> set xs. P x)"
  using find_None_iff[of P xs] by (cases "find P xs") auto

lemma FindByEmail_succeeds_iff:
  "(\<exists>account. AccountRepository_FindByEmail e m = Inr account) \<longleftrightarrow>
     acc_findErr m = None \<and> (\<exists>account \<in> set (map snd (accounts m)). email account = e)"
proof (cases "acc_findErr m")
  case None
  have "(\<exists>account. AccountRepository_FindByEmail e m = Inr account) \<longleftrightarrow>
        (\<exists>account. find (\<lambda>account. email account = e) (map snd (accounts m)) = Some account)"
    using None by (simp add: AccountRepository_FindByEmail_def split: option.splits)
  then show ?thesis
    using None find_is_Some_iff[of "\<lambda>account. email account = e" "map snd (accounts m)"]
    by simp
next
  case (Some err)
  then show ?thesis
    by (simp add: AccountRepository_FindByEmail_def)
qed

lemma NewAccount_addInput:
  "NewAccount testEnv ''a@example.com'' ''a'' ''explicit-a-example.com'' =
     Inr \<lparr>acc_id = ''01ab7fe0'', email = ''a@example.com'', acc_alias = ''a'',
          uuid = ''explicit-a-example.com'', createdAt = 1000, lastUsed = 1000\<rparr>"
  by (simp add: account_defs testEnv_def)

lemma checkAccountExists_iff_lookup:
  "(checkAccountExists ctx e w = None \<longleftrightarrow>
      (\<exists>err. AccountRepository_FindByEmail e (accountRepo w) = Inl err)) \<and>
   (checkAccountExists ctx e w = Some (ErrAccountExists e) \<longleftrightarrow>
      (\<exists>account. AccountRepository_FindByEmail e (accountRepo w) = Inr account))"
  by (simp add: checkAccountExists_def split: sum.splits)

lemma createAndSaveAccount_never_duplicate:
  "fst (createAndSaveAccount C env ctx e a u d w) \<noteq> Some (ErrAccountExists x)"
  by (simp add: createAndSaveAccount_def CredentialStore_Store_def AccountRepository_Save_def
      split: sum.splits option.splits)

text \<open>
  Claim C10. Once Add has resolved the email, the lookup by email decides what it does.
  When the lookup returns an error, whatever the error, Add goes on to create and save
  the account: a repository whose lookups fail (\<open>acc_findErr\<close>) never stops an add, even
  when an account with that email is stored. When the lookup returns an account, Add
  returns the duplicate error and leaves the stores as they were. Add returns the
  duplicate error exactly when the lookup returns an account, that is when lookups work
  and an account with that email is stored.
\<close>

theorem add_duplicate_check_lookup_errors:
  assumes "determineAccountDetails ctx input w = Inr (e, u, credentialData)"
  shows "((\<exists>err. AccountRepository_FindByEmail e (accountRepo w) = Inl err) \<longrightarrow>
            AddAccount_Execute C env ctx input w =
              createAndSaveAccount C env ctx e (generateAlias (add_Alias input) e) u
                credentialData w) \<and>
         (acc_findErr (accountRepo w) = Some ioerr \<longrightarrow>
            AddAccount_Execute C env ctx input w =
              createAndSaveAccount C env ctx e (generateAlias (add_Alias input) e) u
                credentialData w) \<and>
         ((\<exists>account. AccountRepository_FindByEmail e (accountRepo w) = Inr account) \<longrightarrow>
            AddAccount_Execute C env ctx input w = (Some (ErrAccountExists e), w)) \<and>
         (fst (AddAccount_Execute C env ctx input w) = Some (ErrAccountExists e) \<longleftrightarrow>
            (\<exists>account. AccountRepository_FindByEmail e (accountRepo w) = Inr account)) \<and>
         (fst (AddAccount_Execute C env ctx input w) = Some (ErrAccountExists e) \<longleftrightarrow>
            acc_findErr (accountRepo w) = None \<and>
            (\<exists>account \<in> set (map snd (accounts (accountRepo w))). email account = e))"
proof -
  let ?go = "createAndSaveAccount C env ctx e (generateAlias (add_Alias input) e) u credentialData w"
  have proceed: "AddAccount_Execute C env ctx input w = ?go"
    if "AccountRepository_FindByEmail e (accountRepo w) = Inl err" for err
    using assms that by (simp add: AddAccount_Execute_def checkAccountExists_def)
  have io: "AccountRepository_FindByEmail e (accountRepo w) = Inl ioerr"
    if "acc_findErr (accountRepo w) = Some ioerr"
    using that by (simp add: AccountRepository_FindByEmail_def)
  have dup: "AddAccount_Execute C env ctx input w = (Some (ErrAccountExists e), w)"
    if "AccountRepository_FindByEmail e (accountRepo w) = Inr account" for account
    using assms that by (simp add: AddAccount_Execute_def checkAccountExists_def)
  have iff: "fst (AddAccount_Execute C env ctx input w) = Some (ErrAccountExists e) \<longleftrightarrow>
               (\<exists>account. AccountRepository_FindByEmail e (accountRepo w) = Inr account)"
  proof (cases "AccountRepository_FindByEmail e (accountRepo w)")
    case (Inl err)
    then show ?thesis
      using proceed[OF Inl] createAndSaveAccount_never_duplicate[of C env ctx e _ u credentialData w e]
      by simp
  next
    case (Inr account)
    then show ?thesis
      using dup[OF Inr] by simp
  qed
  show ?thesis
    using proceed io dup iff FindByEmail_succeeds_iff[of e "accountRepo w"] by blast
qed

text \<open>
  Adding the configured account \<open>personal@example.com\<close>, which is already stored: a
  duplicate when lookups work; when they fail, Add succeeds and the repository holds two
  accounts with that email.
\<close>

theorem add_duplicate_check_lookup_errors_witness:
  "AddAccount_Execute toyCrypto testEnv None addFromConfig testStores =
     (Some (ErrAccountExists ''personal@example.com''), testStores) \<and>
   fst (AddAccount_Execute toyCrypto testEnv None addFromConfig (failingFind testStores)) = None \<and>
   map (\<lambda>(i, a). (i, email a))
     (accounts (accountRepo
        (snd (AddAccount_Execute toyCrypto testEnv None addFromConfig (failingFind testStores))))) =
     [(''aaaa0001'', ''personal@example.com''), (''aaaa0002'', ''work@example.com''),
      (''aaaa0003'', ''test@example.com''), (''01ab7fe0'', ''personal@example.com'')]"
proof -
  have d1: "determineAccountDetails None addFromConfig testStores =
              Inr (''personal@example.com'', ''uuid-personal'', ''xy'')"
    by (simp add: determineAccountDetails_def addFromConfig_def ConfigManager_GetCurrentAccount_def
          fixture_defs)
  have d2: "determineAccountDetails None addFromConfig (failingFind testStores) =
              Inr (''personal@example.com'', ''uuid-personal'', ''xy'')"
    by (simp add: determineAccountDetails_def addFromConfig_def ConfigManager_GetCurrentAccount_def
          fixture_defs failing_defs)
  have f1: "AccountRepository_FindByEmail ''personal@example.com'' (accountRepo testStores) =
              Inr personal"
    by (simp add: AccountRepository_FindByEmail_def fixture_defs)
  have f2: "acc_findErr (accountRepo (failingFind testStores)) = Some (Err ''disk unreadable'')"
    by (simp add: failing_defs)
  have a: "NewAccount testEnv ''personal@example.com'' ''second'' ''uuid-personal'' =
             Inr \<lparr>acc_id = ''01ab7fe0'', email = ''personal@example.com'', acc_alias = ''second'',
                  uuid = ''uuid-personal'', createdAt = 1000, lastUsed = 1000\<rparr>"
    by (simp add: account_defs testEnv_def)
  have go: "createAndSaveAccount toyCrypto testEnv None ''personal@example.com''
              (generateAlias (add_Alias addFromConfig) ''personal@example.com'') ''uuid-personal''
              ''xy'' (failingFind testStores) =
            (None, (failingFind testStores)
               \<lparr>accountRepo := snd (AccountRepository_Save
                    \<lparr>acc_id = ''01ab7fe0'', email = ''personal@example.com'', acc_alias = ''second'',
                     uuid = ''uuid-personal'', createdAt = 1000, lastUsed = 1000\<rparr>
                    (accountRepo (failingFind testStores))),
                credentialStore := snd (CredentialStore_Store
                    \<lparr>accountID = ''01ab7fe0'', encryptedData = ''0123456789abxyccx-encryption-0'',
                     encryptionKey = ''ccx-encryption-01ab7fe0000000000''\<rparr>
                    (credentialStore (failingFind testStores)))\<rparr>)"
    by (simp add: createAndSaveAccount_def generateAlias_def addFromConfig_def a)
       (simp add: credential_defs toyCrypto_def testEnv_def store_defs fixture_defs failing_defs)
  show ?thesis
    using add_duplicate_check_lookup_errors[OF d1, of toyCrypto testEnv "Err ''disk unreadable''"]
          add_duplicate_check_lookup_errors[OF d2, of toyCrypto testEnv "Err ''disk unreadable''"]
          f1 f2
    by (simp add: go) (simp add: store_defs fixture_defs failing_defs)
qed

text \<open>
  Claim C1, as amended. When Add has resolved its details, found no duplicate, built the
  account and sealed the credentials, and then the credential store accepts the
  credentials and the account repository refuses the account: Add returns the save error,
  after calling the credential store's \<open>Delete\<close> for the new account's identifier. The
  account repository is unchanged. When that \<open>Delete\<close> succeeds, the credential store
  holds no credentials for the new account afterwards.
\<close>

theorem add_save_failure_compensates:
  assumes "determineAccountDetails ctx input w = Inr (e, u, credentialData)"
      and "checkAccountExists ctx e w = None"
      and "NewAccount env e (generateAlias (add_Alias input) e) u = Inr account"
      and "NewCredentials C (nonceEntropy env) (acc_id account) credentialData = Inr creds"
      and "storeErr (credentialStore w) = None"
      and "acc_saveErr (accountRepo w) = Some serr"
  shows "fst (AddAccount_Execute C env ctx input w) = Some (Errf ''failed to save account'' serr) \<and>
         snd (AddAccount_Execute C env ctx input w) =
           w\<lparr>credentialStore :=
               snd (CredentialStore_Delete (acc_id account)
                      (snd (CredentialStore_Store creds (credentialStore w))))\<rparr> \<and>
         accountRepo (snd (AddAccount_Execute C env ctx input w)) = accountRepo w \<and>
         (cred_deleteErr (credentialStore w) = None \<longrightarrow>
            credentials (credentialStore (snd (AddAccount_Execute C env ctx input w)))
              (acc_id account) = None)"
proof -
  have i: "accountID creds = acc_id account"
    using assms(4) by (auto simp: NewCredentials_def split: if_splits sum.splits)
  show ?thesis
    using assms i
    by (simp add: AddAccount_Execute_def createAndSaveAccount_def CredentialStore_Store_def
          AccountRepository_Save_def CredentialStore_Delete_def split: option.splits)
qed

text \<open>
  With a repository that refuses to save, Add leaves the stores exactly as they were, and
  no credentials of the new account remain.
\<close>

theorem add_save_failure_compensates_witness:
  "fst (AddAccount_Execute toyCrypto testEnv None addInput (failingSave testStores)) =
     Some (Errf ''failed to save account'' (Err ''disk full'')) \<and>
   snd (AddAccount_Execute toyCrypto testEnv None addInput (failingSave testStores)) =
     failingSave testStores \<and>
   credentials (credentialStore
     (snd (AddAccount_Execute toyCrypto testEnv None addInput (failingSave testStores))))
     ''01ab7fe0'' = None"
proof -
  let ?account = "\<lparr>acc_id = ''01ab7fe0'', email = ''a@example.com'', acc_alias = ''a'',
                    uuid = ''explicit-a-example.com'', createdAt = 1000, lastUsed = 1000\<rparr>"
  let ?creds = "\<lparr>accountID = ''01ab7fe0'',
                  encryptedData = ''0123456789ab'' @ [CHR 0x01, CHR 0x02] @ ''ccx-encryption-0'',
                  encryptionKey = ''ccx-encryption-01ab7fe0000000000''\<rparr>"
  have d: "determineAccountDetails None addInput (failingSave testStores) =
             Inr (''a@example.com'', ''explicit-a-example.com'', [CHR 0x01, CHR 0x02])"
    by (simp add: determineAccountDetails_def addInput_def)
  have c: "checkAccountExists None ''a@example.com'' (failingSave testStores) = None"
    by (simp add: checkAccountExists_def AccountRepository_FindByEmail_def fixture_defs failing_defs)
  have a: "NewAccount testEnv ''a@example.com'' (generateAlias (add_Alias addInput) ''a@example.com'')
             ''explicit-a-example.com'' = Inr ?account"
    by (simp add: generateAlias_def addInput_def NewAccount_addInput)
  have k: "NewCredentials toyCrypto (nonceEntropy testEnv) (acc_id ?account) [CHR 0x01, CHR 0x02] =
             Inr ?creds"
    by (simp add: credential_defs toyCrypto_def testEnv_def)
  have s: "storeErr (credentialStore (failingSave testStores)) = None"
    by (simp add: fixture_defs failing_defs)
  have f: "acc_saveErr (accountRepo (failingSave testStores)) = Some (Err ''disk full'')"
    by (simp add: fixture_defs failing_defs)
  have m: "(credentials (credentialStore (failingSave testStores)))(''01ab7fe0'' := None) =
           credentials (credentialStore (failingSave testStores))"
    by (rule ext) (simp add: fixture_defs failing_defs)
  show ?thesis
    using add_save_failure_compensates[OF d c a k s f] m
    by (simp add: CredentialStore_Store_def CredentialStore_Delete_def s)
       (simp add: fixture_defs failing_defs)
qed

text \<open>
  Without the proviso the statement fails: when the credential store also refuses to delete,
  the error of that \<open>Delete\<close> is dropped, Add still returns the save error, and the
  credentials of the account that was never saved stay in the credential store.
\<close>

theorem add_failed_compensation_counterexample:
  "fst (AddAccount_Execute toyCrypto testEnv None addInput
          (failingCredentialDelete (failingSave testStores))) =
     Some (Errf ''failed to save account'' (Err ''disk full'')) \<and>
   credentials (credentialStore (failingCredentialDelete (failingSave testStores))) ''01ab7fe0'' = None \<and>
   credentials (credentialStore
     (snd (AddAccount_Execute toyCrypto testEnv None addInput
             (failingCredentialDelete (failingSave testStores))))) ''01ab7fe0'' =
     Some \<lparr>accountID = ''01ab7fe0'',
           encryptedData = ''0123456789ab'' @ [CHR 0x01, CHR 0x02] @ ''ccx-encryption-0'',
           encryptionKey = ''ccx-encryption-01ab7fe0000000000''\<rparr>"
  by (simp add: add_defs NewAccount_addInput[unfolded testEnv_def] credential_defs toyCrypto_def
        store_defs fixture_defs failing_defs)

section \<open>Cancellation\<close>

lemma AddAccount_Execute_ignores_context:
  "AddAccount_Execute C env ctx input w = AddAccount_Execute C env None input w"
proof -
  have "determineAccountDetails ctx input w = determineAccountDetails None input w"
    by (simp add: determineAccountDetails_def)
  moreover have "\<And>e. checkAccountExists ctx e w = checkAccountExists None e w"
    by (simp add: checkAccountExists_def)
  moreover have "\<And>e a u d. createAndSaveAccount C env ctx e a u d w =
                            createAndSaveAccount C env None e a u d w"
    by (simp add: createAndSaveAccount_def)
  ultimately show ?thesis
    by (simp add: AddAccount_Execute_def split: sum.splits prod.splits option.splits)
qed

lemma SwitchAccount_Execute_cancelled:
  "SwitchAccount_Execute env (Some err) input w = (Inl (Errf ''context cancelled'' err), w)"
  by (simp add: SwitchAccount_Execute_def)

lemma RemoveAccount_Execute_cancelled:
  "rm_AccountID input \<noteq> [] \<Longrightarrow> RemoveAccount_Execute (Some err) input w = (Inl err, w)"
  by (simp add: RemoveAccount_Execute_def validateInput_def)

text \<open>
  Claim C7. Switch and Remove look at the context before they touch a store (the two
  lemmas above); Add never looks at it. Called with a cancelled context and an explicit
  email and payload, Add returns no error and has written both the account and its
  credentials, neither of which was stored before.
\<close>

theorem add_with_cancelled_context_writes:
  "fst (AddAccount_Execute toyCrypto testEnv (Some Canceled) addInput testStores) = None \<and>
   AccountRepository_FindByID ''01ab7fe0''
     (accountRepo (snd (AddAccount_Execute toyCrypto testEnv (Some Canceled) addInput testStores))) =
     Inr \<lparr>acc_id = ''01ab7fe0'', email = ''a@example.com'', acc_alias = ''a'',
          uuid = ''explicit-a-example.com'', createdAt = 1000, lastUsed = 1000\<rparr> \<and>
   AccountRepository_FindByID ''01ab7fe0'' (accountRepo testStores) = Inl (Err ''account not found'') \<and>
   credentials (credentialStore
       (snd (AddAccount_Execute toyCrypto testEnv (Some Canceled) addInput testStores))) ''01ab7fe0'' \<noteq> None \<and>
   credentials (credentialStore testStores) ''01ab7fe0'' = None"
  by (simp add: add_defs NewAccount_addInput[unfolded testEnv_def] credential_defs toyCrypto_def
        store_defs fixture_defs)

section \<open>Switching the current account\<close>

text \<open>
  Claim C3. When the context is live, the configuration can be read and the resolved
  target has the identifier of the current account, Switch succeeds with \<open>From\<close> and \<open>To\<close>
  both describing the current account, and leaves every store as it was: the history
  repository has counted no further save and the current account is the same.
\<close>

theorem switch_to_current_is_noop:
  assumes "getErr (configManager w) = None"
      and "currentAccount (configManager w) = Some cur"
      and "determineTargetAccount input w = Inr target"
      and "acc_id target = acc_id cur"
  shows "SwitchAccount_Execute env None input w =
           (Inr \<lparr>From = Some (accountToInfo cur), To = accountToInfo cur\<rparr>, w) \<and>
         saveCalls (historyRepo (snd (SwitchAccount_Execute env None input w))) =
           saveCalls (historyRepo w) \<and>
         currentAccount (configManager (snd (SwitchAccount_Execute env None input w))) = Some cur"
  using assms
  by (simp add: SwitchAccount_Execute_def ConfigManager_GetCurrentAccount_def)

text \<open>Switching to \<open>personal\<close> while it is current.\<close>

theorem switch_to_current_is_noop_witness:
  "SwitchAccount_Execute testEnv None (byAlias ''personal'') testStores =
     (Inr \<lparr>From = Some (accountToInfo personal), To = accountToInfo personal\<rparr>, testStores) \<and>
   saveCalls (historyRepo (snd (SwitchAccount_Execute testEnv None (byAlias ''personal'') testStores))) = 0"
  using switch_to_current_is_noop[of testStores personal "byAlias ''personal''" personal testEnv]
  by (simp add: determineTargetAccount_def store_defs fixture_defs)

text \<open>
  Claim C4. When the resolved target is not the current account and either its
  credentials cannot be retrieved or the configuration refuses the new current account,
  Switch returns an error, the history repository is untouched (no save is counted), and
  the current account keeps its value. The error names the step that failed, and the
  stores are returned as they were.
\<close>

theorem switch_failure_leaves_history_and_config:
  assumes "getErr (configManager w) = None"
      and "determineTargetAccount input w = Inr target"
      and "\<forall>cur. currentAccount (configManager w) = Some cur \<longrightarrow> acc_id cur \<noteq> acc_id target"
      and "CredentialStore_Retrieve (acc_id target) (credentialStore w) = Inl rerr \<or>
           setErr (configManager w) = Some serr"
  shows "(\<exists>err. fst (SwitchAccount_Execute env None input w) = Inl err) \<and>
         historyRepo (snd (SwitchAccount_Execute env None input w)) = historyRepo w \<and>
         saveCalls (historyRepo (snd (SwitchAccount_Execute env None input w))) =
           saveCalls (historyRepo w) \<and>
         currentAccount (configManager (snd (SwitchAccount_Execute env None input w))) =
           currentAccount (configManager w) \<and>
         (CredentialStore_Retrieve (acc_id target) (credentialStore w) = Inl rerr \<longrightarrow>
            SwitchAccount_Execute env None input w =
              (Inl (ErrRetrieveCredentials (acc_alias target) rerr), w)) \<and>
         ((\<exists>creds. CredentialStore_Retrieve (acc_id target) (credentialStore w) = Inr creds) \<and>
          setErr (configManager w) = Some serr \<longrightarrow>
            SwitchAccount_Execute env None input w =
              (Inl (Errf ''failed to set current account'' serr), w))"
proof -
  have same: "(case currentAccount (configManager w) of
                 None \<Rightarrow> None
               | Some cur \<Rightarrow> if acc_id cur = acc_id target then Some cur else None) = None"
    using assms(3) by (simp split: option.splits)
  show ?thesis
  proof (cases "CredentialStore_Retrieve (acc_id target) (credentialStore w)")
    case (Inl e)
    then show ?thesis
      using assms(1,2) same
      by (simp add: SwitchAccount_Execute_def ConfigManager_GetCurrentAccount_def)
  next
    case (Inr c)
    with assms(4) have s: "setErr (configManager w) = Some serr"
      by simp
    show ?thesis
      using assms(1,2) same Inr s
      by (simp add: SwitchAccount_Execute_def ConfigManager_GetCurrentAccount_def
            ConfigManager_SetCurrentAccount_def)
  qed
qed

text \<open>Switching to \<open>work\<close> when its credentials are missing.\<close>

theorem switch_failure_leaves_history_and_config_witness:
  "SwitchAccount_Execute testEnv None (byAlias ''work'') (missingCredentials ''aaaa0002'' testStores) =
     (Inl (ErrRetrieveCredentials ''work'' (Err ''credentials not found'')),
      missingCredentials ''aaaa0002'' testStores) \<and>
   saveCalls (historyRepo (snd (SwitchAccount_Execute testEnv None (byAlias ''work'')
      (missingCredentials ''aaaa0002'' testStores)))) = 0 \<and>
   currentAccount (configManager (snd (SwitchAccount_Execute testEnv None (byAlias ''work'')
      (missingCredentials ''aaaa0002'' testStores)))) = Some personal \<and>
   SwitchAccount_Execute testEnv None (byAlias ''work'') (failingSet testStores) =
     (Inl (Errf ''failed to set current account'' (Err ''config not writable'')),
      failingSet testStores) \<and>
   saveCalls (historyRepo (snd (SwitchAccount_Execute testEnv None (byAlias ''work'')
      (failingSet testStores)))) = 0"
  using switch_failure_leaves_history_and_config[of "missingCredentials ''aaaa0002'' testStores"
          "byAlias ''work''" work "Err ''credentials not found''" "Err ''config not writable''" testEnv]
        switch_failure_leaves_history_and_config[of "failingSet testStores"
          "byAlias ''work''" work "Err ''credentials not found''" "Err ''config not writable''" testEnv]
  by (simp add: determineTargetAccount_def store_defs fixture_defs failing_defs)

text \<open>
  Claim C8, as amended. Let the position be the only selector given, and let the
  configuration be readable. A position below 1 counts as no selector at all and fails
  with the error for a missing account identifier. When the accounts can be listed, a
  position greater than the length of the listing fails with the index-out-of-range
  error. In both cases no store changes.
\<close>

theorem switch_by_position_out_of_range:
  assumes "sw_AccountID input = []" and "sw_Email input = []" and "sw_Alias input = []"
      and "\<not> sw_Previous input"
      and "getErr (configManager w) = None"
  shows "(sw_Index input < 1 \<longrightarrow>
            SwitchAccount_Execute env None input w =
              (Inl (Err ''no account identifier provided''), w)) \<and>
         (acc_findErr (accountRepo w) = None \<and>
          sw_Index input > int (length (accounts (accountRepo w))) \<longrightarrow>
            SwitchAccount_Execute env None input w =
              (Inl (ErrIndexOutOfRange (sw_Index input) (length (accounts (accountRepo w)))), w))"
  using assms
  by (auto simp: SwitchAccount_Execute_def ConfigManager_GetCurrentAccount_def
        determineTargetAccount_def findByIndex_def AccountRepository_List_def)

text \<open>Positions 0 and 100 in a listing of three accounts.\<close>

theorem switch_by_position_out_of_range_witness:
  "SwitchAccount_Execute testEnv None (byIndex 0) testStores =
     (Inl (Err ''no account identifier provided''), testStores) \<and>
   SwitchAccount_Execute testEnv None (byIndex 100) testStores =
     (Inl (ErrIndexOutOfRange 100 3), testStores)"
  using switch_by_position_out_of_range[of "byIndex 0" testStores testEnv]
        switch_by_position_out_of_range[of "byIndex 100" testStores testEnv]
  by (simp add: fixture_defs)

text \<open>
  Position 0 does not give the index-out-of-range error: \<open>determineTargetAccount\<close> counts
  a position as given only when it is positive, so \<open>findByIndex\<close> is never reached.
\<close>

theorem switch_position_zero_counterexample:
  "fst (SwitchAccount_Execute testEnv None (byIndex 0) testStores) =
     Inl (Err ''no account identifier provided'') \<and>
   fst (SwitchAccount_Execute testEnv None (byIndex 0) testStores) \<noteq>
     Inl (ErrIndexOutOfRange 0 3)"
  by (simp add: SwitchAccount_Execute_def determineTargetAccount_def store_defs fixture_defs)




section \<open>Removing an account\<close>

text \<open>
  Claim C2, as amended. Let Remove find the account, filed under its own identifier,
  delete its credentials, and then fail to delete the account record. It returns the deletion error, and the account is still
  found by its identifier. When the credentials could be read before the deletion, are
  filed under their own account, and the credential store accepts them back, they are
  retrievable afterwards and every store is as it was before the call.
\<close>

theorem remove_account_delete_failure_rolls_back:
  assumes "rm_AccountID input \<noteq> []"
      and "AccountRepository_FindByID (rm_AccountID input) (accountRepo w) = Inr account"
      and "acc_id account = rm_AccountID input"
      and "cred_deleteErr (credentialStore w) = None"
      and "acc_deleteErr (accountRepo w) = Some derr"
  shows "fst (RemoveAccount_Execute None input w) = Inl (Errf ''failed to delete account'' derr) \<and>
         AccountRepository_FindByID (rm_AccountID input)
           (accountRepo (snd (RemoveAccount_Execute None input w))) = Inr account \<and>
         (\<forall>backup.
            CredentialStore_Retrieve (acc_id account) (credentialStore w) = Inr backup \<and>
            accountID backup = acc_id account \<and>
            storeErr (credentialStore w) = None \<longrightarrow>
            CredentialStore_Retrieve (acc_id account)
              (credentialStore (snd (RemoveAccount_Execute None input w))) = Inr backup \<and>
            snd (RemoveAccount_Execute None input w) = w)"
proof -
  have f: "acc_findErr (accountRepo w) = None"
    using assms(2) by (simp add: AccountRepository_FindByID_def split: option.splits)
  obtain md where md: "getRemovalMetadata account w = Inr md"
    and bk: "backupCredentials md =
               (case CredentialStore_Retrieve (acc_id account) (credentialStore w) of
                  Inr creds \<Rightarrow> Some creds | Inl _ \<Rightarrow> None)"
    using f by (simp add: getRemovalMetadata_def AccountRepository_List_def Let_def)
  have pr: "performRemoval account md w =
              (Some (Errf ''failed to delete account'' derr),
               rollbackCredentials (backupCredentials md)
                 (w\<lparr>credentialStore :=
                      (credentialStore w)\<lparr>credentials :=
                         (credentials (credentialStore w))(acc_id account := None)\<rparr>\<rparr>))"
    using assms(4,5)
    by (simp add: performRemoval_def CredentialStore_Delete_def AccountRepository_Delete_def)
  have ex: "RemoveAccount_Execute None input w =
              (Inl (Errf ''failed to delete account'' derr),
               rollbackCredentials (backupCredentials md)
                 (w\<lparr>credentialStore :=
                      (credentialStore w)\<lparr>credentials :=
                         (credentials (credentialStore w))(acc_id account := None)\<rparr>\<rparr>))"
    using assms(1,2) md pr
    by (simp add: RemoveAccount_Execute_def validateInput_def)
  have a: "accountRepo (snd (RemoveAccount_Execute None input w)) = accountRepo w"
    by (simp add: ex rollbackCredentials_def split: option.splits)
  have c: "CredentialStore_Retrieve (acc_id account)
              (credentialStore (snd (RemoveAccount_Execute None input w))) = Inr backup \<and>
           snd (RemoveAccount_Execute None input w) = w"
    if r: "CredentialStore_Retrieve (acc_id account) (credentialStore w) = Inr backup"
      and k: "accountID backup = acc_id account"
      and s: "storeErr (credentialStore w) = None" for backup
  proof -
    have re: "retrieveErr (credentialStore w) = None"
      and cr: "credentials (credentialStore w) (acc_id account) = Some backup"
      using r by (auto simp: CredentialStore_Retrieve_def split: option.splits)
    have "(credentials (credentialStore w))(acc_id account \<mapsto> backup) =
          credentials (credentialStore w)"
      using cr by (rule map_upd_triv)
    then have "snd (RemoveAccount_Execute None input w) = w"
      using r k s by (simp add: ex bk rollbackCredentials_def CredentialStore_Store_def)
    then show ?thesis
      using r by simp
  qed
  show ?thesis
    using ex a assms(2) c by simp
qed

text \<open>Removing \<open>work\<close> from a repository that refuses to delete.\<close>

theorem remove_account_delete_failure_rolls_back_witness:
  "fst (RemoveAccount_Execute None \<lparr>rm_AccountID = ''aaaa0002''\<rparr> (failingAccountDelete testStores)) =
     Inl (Errf ''failed to delete account'' (Err ''database locked'')) \<and>
   AccountRepository_FindByID ''aaaa0002''
     (accountRepo (snd (RemoveAccount_Execute None \<lparr>rm_AccountID = ''aaaa0002''\<rparr>
        (failingAccountDelete testStores)))) = Inr work \<and>
   CredentialStore_Retrieve ''aaaa0002'' (credentialStore (failingAccountDelete testStores)) =
     Inr (credsOf work) \<and>
   CredentialStore_Retrieve ''aaaa0002''
     (credentialStore (snd (RemoveAccount_Execute None \<lparr>rm_AccountID = ''aaaa0002''\<rparr>
        (failingAccountDelete testStores)))) = Inr (credsOf work)"
proof -
  let ?w = "failingAccountDelete testStores"
  have 1: "rm_AccountID \<lparr>rm_AccountID = ''aaaa0002''\<rparr> \<noteq> []"
    by simp
  have 2: "AccountRepository_FindByID (rm_AccountID \<lparr>rm_AccountID = ''aaaa0002''\<rparr>) (accountRepo ?w) =
             Inr work"
    by (simp add: AccountRepository_FindByID_def fixture_defs failing_defs)
  have 3: "acc_id work = rm_AccountID \<lparr>rm_AccountID = ''aaaa0002''\<rparr>"
    by (simp add: work_def)
  have 4: "cred_deleteErr (credentialStore ?w) = None"
    by (simp add: fixture_defs failing_defs)
  have 5: "acc_deleteErr (accountRepo ?w) = Some (Err ''database locked'')"
    by (simp add: fixture_defs failing_defs)
  have r: "CredentialStore_Retrieve (acc_id work) (credentialStore ?w) = Inr (credsOf work)"
    by (simp add: CredentialStore_Retrieve_def fixture_defs failing_defs)
  have k: "accountID (credsOf work) = acc_id work"
    by (simp add: credsOf_def)
  have s: "storeErr (credentialStore ?w) = None"
    by (simp add: fixture_defs failing_defs)
  have i: "acc_id work = ''aaaa0002''"
    by (simp add: work_def)
  show ?thesis
    using remove_account_delete_failure_rolls_back[OF 1 2 3 4 5] 2 r k s
    by (simp add: i)
qed

text \<open>
  Without the proviso the statement fails: the restore is best effort. When the credential
  store refuses to take the backup, the error of that \<open>Store\<close> is dropped and the
  credentials, which could be retrieved before the call, cannot be retrieved after it.
\<close>

theorem remove_failed_restore_counterexample:
  "fst (RemoveAccount_Execute None \<lparr>rm_AccountID = ''aaaa0002''\<rparr>
          (failingCredentialStore (failingAccountDelete testStores))) =
     Inl (Errf ''failed to delete account'' (Err ''database locked'')) \<and>
   CredentialStore_Retrieve ''aaaa0002''
     (credentialStore (failingCredentialStore (failingAccountDelete testStores))) =
     Inr (credsOf work) \<and>
   CredentialStore_Retrieve ''aaaa0002''
     (credentialStore (snd (RemoveAccount_Execute None \<lparr>rm_AccountID = ''aaaa0002''\<rparr>
        (failingCredentialStore (failingAccountDelete testStores))))) =
     Inl (Err ''credentials not found'')"
  by (simp add: RemoveAccount_Execute_def validateInput_def getRemovalMetadata_def
        performRemoval_def rollbackCredentials_def accountToInfo_def store_defs fixture_defs
        failing_defs)

end
